theory Spec2Isabelle
  imports Complex_Main "HOL-Library.Word"
begin

unbundle bit_operations_syntax

section \<open>Data model (types of the game)\<close>

text \<open>
  JavaScript numbers are modelled as \<^typ>\<open>real\<close>: every arithmetic step of the source is
  taken exactly, with no rounding, no NaN and no infinities. Integer-valued results of
  \<^verbatim>\<open>Math.floor\<close> and \<^verbatim>\<open>Math.ceil\<close> are \<^typ>\<open>int\<close>.
\<close>

text \<open>
  The fields \<^verbatim>\<open>x\<close> and \<^verbatim>\<open>y\<close> are \<open>px\<close> and \<open>py\<close> in a \<^verbatim>\<open>Point\<close> or
  \<^verbatim>\<open>Vector2\<close>, and \<open>rx\<close> and \<open>ry\<close> in a \<^verbatim>\<open>Rectangle\<close>.
\<close>

record Point =
  px :: real
  py :: real

record Rectangle =
  rx :: real
  ry :: real
  width :: real
  height :: real

datatype TemperType = WO | FC | DR | MA

text \<open>
  \<^verbatim>\<open>NumberEntity\<close>: the colour strings, \<^verbatim>\<open>scale\<close> and \<^verbatim>\<open>driftOffset\<close> are
  left out, no modelled function reads them. \<open>entity_id\<close> is the field \<^verbatim>\<open>id\<close>,
  \<open>entity_value\<close> the field \<^verbatim>\<open>value\<close>.
\<close>

record NumberEntity =
  entity_id :: string
  entity_value :: int
  position :: Point
  worldPosition :: Point
  temper :: TemperType
  isPinned :: bool
  pinStrength :: real
  isScary :: bool
  wellupIntensity :: real

datatype CursorMode = Exploration | Pinpoint

record CursorState =
  position :: Point
  worldPosition :: Point
  mode :: CursorMode
  velocity :: Point
  isMoving :: bool

record LassoState =
  points :: "Point list"
  isActive :: bool
  isClosed :: bool
  capturedNumbers :: "string list"
  centerPoint :: Point

record World =
  viewport :: Rectangle
  scale :: real
  numbers :: "NumberEntity list"

text \<open>
  The part of the game store (\<^verbatim>\<open>useGameStore\<close>) the modelled code reads or writes:
  the world, the cursor, the lasso and the session's list of captured ids.
\<close>

record GameStore =
  world :: World
  cursor :: CursorState
  lasso :: LassoState
  sessionCaptured :: "string list"

section \<open>The game store's actions\<close>

definition updateViewport :: "Rectangle \<Rightarrow> GameStore \<Rightarrow> GameStore" where
  "updateViewport v st = st\<lparr>world := (world st)\<lparr>viewport := v\<rparr>\<rparr>"

definition addNumber_store :: "NumberEntity \<Rightarrow> GameStore \<Rightarrow> GameStore" where
  "addNumber_store n st = st\<lparr>world := (world st)\<lparr>numbers := numbers (world st) @ [n]\<rparr>\<rparr>"

definition removeNumber_store :: "string \<Rightarrow> GameStore \<Rightarrow> GameStore" where
  "removeNumber_store i st =
     st\<lparr>world := (world st)\<lparr>numbers := filter (\<lambda>n. entity_id n \<noteq> i) (numbers (world st))\<rparr>\<rparr>"

definition updateCursorPosition :: "Point \<Rightarrow> GameStore \<Rightarrow> GameStore" where
  "updateCursorPosition p st =
     st\<lparr>cursor := (cursor st)\<lparr>
        position := p,
        worldPosition := \<lparr>px = (px p - rx (viewport (world st))) / scale (world st),
                          py = (py p - ry (viewport (world st))) / scale (world st)\<rparr>,
        isMoving := True\<rparr>\<rparr>"

definition setCursorMode :: "CursorMode \<Rightarrow> GameStore \<Rightarrow> GameStore" where
  "setCursorMode m st = st\<lparr>cursor := (cursor st)\<lparr>mode := m\<rparr>\<rparr>"

definition updateCursorVelocity :: "Point \<Rightarrow> GameStore \<Rightarrow> GameStore" where
  "updateCursorVelocity v st = st\<lparr>cursor := (cursor st)\<lparr>velocity := v\<rparr>\<rparr>"

section \<open>WorldSystem\<close>

text \<open>
  The private fields of the class. The spatial grid's string keys \<^verbatim>\<open>"gx,gy"\<close> are
  modelled as the pair of integers they print.
\<close>

record WorldSystem =
  gridCols :: int
  gridRows :: int
  cellSize :: real
  cellSpacing :: real
  viewportMargin :: real
  spatialGrid :: "int \<times> int \<Rightarrow> NumberEntity list option"
  spatialGridSize :: real

definition getWorldWidth :: "WorldSystem \<Rightarrow> real" where
  "getWorldWidth ws = of_int (gridCols ws) * (cellSize ws + cellSpacing ws)"

definition getWorldHeight :: "WorldSystem \<Rightarrow> real" where
  "getWorldHeight ws = of_int (gridRows ws) * (cellSize ws + cellSpacing ws)"

definition constrainToWorldBounds :: "WorldSystem \<Rightarrow> Rectangle \<Rightarrow> Rectangle" where
  "constrainToWorldBounds ws v =
     \<lparr>rx = max (- viewportMargin ws)
              (min (getWorldWidth ws - width v + viewportMargin ws) (rx v)),
      ry = max (- viewportMargin ws)
              (min (getWorldHeight ws - height v + viewportMargin ws) (ry v)),
      width = width v,
      height = height v\<rparr>"

definition panViewport :: "WorldSystem \<Rightarrow> real \<Rightarrow> real \<Rightarrow> GameStore \<Rightarrow> GameStore" where
  "panViewport ws deltaX deltaY st =
     (let v = viewport (world st);
          newViewport = v\<lparr>rx := rx v + deltaX, ry := ry v + deltaY\<rparr>;
          boundedViewport = constrainToWorldBounds ws newViewport
      in updateViewport boundedViewport st)"

subsection \<open>Spatial partitioning\<close>

text \<open>
  \<^verbatim>\<open>initializeSpatialGrid\<close>: one empty bucket for every \<open>x < cols\<close>, \<open>y < rows\<close>, where
  \<open>cols\<close> and \<open>rows\<close> are the \<^verbatim>\<open>Math.ceil\<close> of the world's extent over the bucket size.
  The loop over the keys is written as the map it builds.
\<close>

definition initializeSpatialGrid :: "WorldSystem \<Rightarrow> WorldSystem" where
  "initializeSpatialGrid ws =
     (let cols = \<lceil>getWorldWidth ws / spatialGridSize ws\<rceil>;
          rows = \<lceil>getWorldHeight ws / spatialGridSize ws\<rceil>
      in ws\<lparr>spatialGrid := (\<lambda>(gx, gy).
            if 0 \<le> gx \<and> gx < cols \<and> 0 \<le> gy \<and> gy < rows then Some []
            else spatialGrid ws (gx, gy))\<rparr>)"

text \<open>
  The constructor, with the constants of \<^verbatim>\<open>GameConfig.world\<close> (a grid of 50 by 80
  cells of size 24 and spacing 2) and \<^verbatim>\<open>LayoutConstants.gridMargin\<close> (16).
\<close>

definition newWorldSystem :: WorldSystem where
  "newWorldSystem =
     initializeSpatialGrid
       \<lparr>gridCols = 50, gridRows = 80, cellSize = 24, cellSpacing = 2, viewportMargin = 16,
        spatialGrid = (\<lambda>k. None), spatialGridSize = 100\<rparr>"

definition worldToScreen :: "GameStore \<Rightarrow> Point \<Rightarrow> Point" where
  "worldToScreen st worldPos =
     \<lparr>px = px worldPos * scale (world st) + rx (viewport (world st)),
      py = py worldPos * scale (world st) + ry (viewport (world st))\<rparr>"

definition cellKeys :: "int \<Rightarrow> int \<Rightarrow> int \<Rightarrow> int \<Rightarrow> (int \<times> int) list" where
  "cellKeys startX endX startY endY =
     concat (map (\<lambda>gx. map (\<lambda>gy. (gx, gy)) [startY..endY]) [startX..endX])"

definition getSpatialCellsForNumber :: "WorldSystem \<Rightarrow> NumberEntity \<Rightarrow> (int \<times> int) list" where
  "getSpatialCellsForNumber ws n =
     (let x = px (NumberEntity.worldPosition n);
          y = py (NumberEntity.worldPosition n);
          size = spatialGridSize ws;
          startX = \<lfloor>x / size\<rfloor>;
          startY = \<lfloor>y / size\<rfloor>;
          endX = \<lfloor>(x + cellSize ws) / size\<rfloor>;
          endY = \<lfloor>(y + cellSize ws) / size\<rfloor>
      in cellKeys startX endX startY endY)"

text \<open>\<^verbatim>\<open>findIndex\<close> and \<^verbatim>\<open>splice(index, 1)\<close>: the first entity with the id is removed.\<close>

fun spliceFirst :: "string \<Rightarrow> NumberEntity list \<Rightarrow> NumberEntity list" where
  "spliceFirst i [] = []"
| "spliceFirst i (n # ns) = (if entity_id n = i then ns else n # spliceFirst i ns)"

definition removeFromCell :: "NumberEntity \<Rightarrow> WorldSystem \<Rightarrow> int \<times> int \<Rightarrow> WorldSystem" where
  "removeFromCell n ws cellKey =
     (case spatialGrid ws cellKey of
        None \<Rightarrow> ws
      | Some cell \<Rightarrow> ws\<lparr>spatialGrid := (spatialGrid ws)(cellKey \<mapsto> spliceFirst (entity_id n) cell)\<rparr>)"

definition removeFromSpatialGrid :: "NumberEntity \<Rightarrow> WorldSystem \<Rightarrow> WorldSystem" where
  "removeFromSpatialGrid n ws = foldl (removeFromCell n) ws (getSpatialCellsForNumber ws n)"

definition pushToCell :: "NumberEntity \<Rightarrow> WorldSystem \<Rightarrow> int \<times> int \<Rightarrow> WorldSystem" where
  "pushToCell n ws cellKey =
     (case spatialGrid ws cellKey of
        None \<Rightarrow> ws
      | Some cell \<Rightarrow> ws\<lparr>spatialGrid := (spatialGrid ws)(cellKey \<mapsto> cell @ [n])\<rparr>)"

definition updateSpatialGrid :: "NumberEntity \<Rightarrow> WorldSystem \<Rightarrow> WorldSystem" where
  "updateSpatialGrid n ws =
     (let ws1 = removeFromSpatialGrid n ws
      in foldl (pushToCell n) ws1 (getSpatialCellsForNumber ws1 n))"

definition addNumber :: "NumberEntity \<Rightarrow> WorldSystem \<times> GameStore \<Rightarrow> WorldSystem \<times> GameStore" where
  "addNumber n = (\<lambda>(ws, st). (updateSpatialGrid n ws, addNumber_store n st))"

text \<open>
  \<^verbatim>\<open>updateNumberPosition\<close> writes the new position to the store's copy of the entity and
  files the entity it was given, which still has the old position, in the spatial grid.
\<close>

definition updateNumber_position_store :: "string \<Rightarrow> Point \<Rightarrow> GameStore \<Rightarrow> GameStore" where
  "updateNumber_position_store i newPosition st =
     st\<lparr>world := (world st)\<lparr>numbers :=
        map (\<lambda>n. if entity_id n = i
                 then n\<lparr>NumberEntity.position := newPosition,
                        NumberEntity.worldPosition := newPosition\<rparr>
                 else n)
          (numbers (world st))\<rparr>\<rparr>"

definition updateNumberPosition ::
  "NumberEntity \<Rightarrow> Point \<Rightarrow> WorldSystem \<times> GameStore \<Rightarrow> WorldSystem \<times> GameStore" where
  "updateNumberPosition n newPosition = (\<lambda>(ws, st).
     (updateSpatialGrid n ws, updateNumber_position_store (entity_id n) newPosition st))"

definition removeNumber :: "string \<Rightarrow> WorldSystem \<times> GameStore \<Rightarrow> WorldSystem \<times> GameStore" where
  "removeNumber numberId = (\<lambda>(ws, st).
     (case find (\<lambda>n. entity_id n = numberId) (numbers (world st)) of
        None \<Rightarrow> (ws, st)
      | Some n \<Rightarrow> (removeFromSpatialGrid n ws, removeNumber_store numberId st)))"

definition getSpatialCellsInViewport :: "WorldSystem \<Rightarrow> Rectangle \<Rightarrow> (int \<times> int) list" where
  "getSpatialCellsInViewport ws v =
     (let size = spatialGridSize ws;
          startX = \<lfloor>rx v / size\<rfloor>;
          startY = \<lfloor>ry v / size\<rfloor>;
          endX = \<lfloor>(rx v + width v) / size\<rfloor>;
          endY = \<lfloor>(ry v + height v) / size\<rfloor>
      in cellKeys startX endX startY endY)"

definition isPointInViewport :: "Point \<Rightarrow> Rectangle \<Rightarrow> bool" where
  "isPointInViewport p v \<longleftrightarrow>
     px p \<ge> rx v \<and> px p \<le> rx v + width v \<and> py p \<ge> ry v \<and> py p \<le> ry v + height v"

definition visibleInCell :: "WorldSystem \<Rightarrow> GameStore \<Rightarrow> Rectangle \<Rightarrow> int \<times> int \<Rightarrow> NumberEntity list" where
  "visibleInCell ws st expandedViewport cellKey =
     (case spatialGrid ws cellKey of
        None \<Rightarrow> []
      | Some cell \<Rightarrow>
          filter (\<lambda>n. isPointInViewport (worldToScreen st (NumberEntity.worldPosition n))
                        expandedViewport) cell)"

definition getVisibleNumbers :: "WorldSystem \<Rightarrow> GameStore \<Rightarrow> NumberEntity list" where
  "getVisibleNumbers ws st =
     (let v = viewport (world st);
          expandedViewport = \<lparr>rx = rx v - 100, ry = ry v - 100,
                              width = width v + 200, height = height v + 200\<rparr>;
          spatialCells = getSpatialCellsInViewport ws expandedViewport
      in concat (map (visibleInCell ws st expandedViewport) spatialCells))"

text \<open>The store's own getter of the same name: a filter of the list of numbers.\<close>

definition getVisibleNumbers_store :: "GameStore \<Rightarrow> NumberEntity list" where
  "getVisibleNumbers_store st =
     filter (\<lambda>n.
        (let sx = px (NumberEntity.worldPosition n) * scale (world st) + rx (viewport (world st));
             sy = py (NumberEntity.worldPosition n) * scale (world st) + ry (viewport (world st))
         in sx \<ge> -50 \<and> sx \<le> width (viewport (world st)) + 50 \<and>
            sy \<ge> -50 \<and> sy \<le> height (viewport (world st)) + 50))
       (numbers (world st))"

section \<open>MDRTerminalGrid\<close>

datatype JitterIntensity = subtle | moderate | dramatic | extreme

record JitterConfig =
  intensity :: JitterIntensity
  enableJitter :: bool
  staticPercentage :: real
  moderatePercentage :: real
  strongPercentage :: real
  extremePercentage :: real

text \<open>
  The options of the tuning store's \<^verbatim>\<open>config\<close> that the component reads:
  \<^verbatim>\<open>config.jitter\<close>, \<^verbatim>\<open>config.cursor.sensitivity\<close>, \<^verbatim>\<open>config.cursor.momentum\<close>,
  \<^verbatim>\<open>config.grid.cellSize\<close> and \<^verbatim>\<open>config.grid.cellHeight\<close>.
\<close>

record TuningConfig =
  jitter :: JitterConfig
  cursor_sensitivity :: real
  cursor_momentum :: real
  grid_cellSize :: real
  grid_cellHeight :: real

text \<open>What the component takes from outside: the window's size and the configuration.\<close>

record Env =
  screenWidth :: real
  screenHeight :: real
  config :: TuningConfig

text \<open>
  The component's state hooks and refs, and the game store it writes to.
  \<open>momentumAnimationRef\<close> tells whether the ref holds an interval handle.
\<close>

record GridState =
  globalTime :: real
  worldScale :: real
  isLassoMode :: bool
  lassoPoints :: "Point list"
  cursorVelocity :: Point
  lastPanTime :: real
  velocityTracker :: Point
  momentumAnimationRef :: bool
  store :: GameStore

text \<open>The fields of the pan responder's \<^verbatim>\<open>gestureState\<close> that the handlers read.\<close>

record GestureState =
  x0 :: real
  y0 :: real
  moveX :: real
  moveY :: real
  dx :: real
  dy :: real
  vx :: real
  vy :: real

subsection \<open>The jittery grid\<close>

record GridCell =
  digit :: int
  baseX :: real
  baseY :: real
  jitterType :: int
  jitterPhase :: real

text \<open>
  \<^verbatim>\<open>a ^ b\<close> of JavaScript: both operands are taken to 32 bits (\<^verbatim>\<open>ToInt32\<close>), and the
  result is read as a signed 32-bit integer.
\<close>

definition xor32 :: "int \<Rightarrow> int \<Rightarrow> int" where
  "xor32 a b = sint ((word_of_int a :: 32 word) XOR (word_of_int b :: 32 word))"

text \<open>\<^verbatim>\<open>a % b\<close> on numbers, for \<open>a \<ge> 0\<close> and \<open>b > 0\<close> (the only use made of it).\<close>

definition fmod :: "real \<Rightarrow> real \<Rightarrow> real" where
  "fmod a b = a - b * of_int \<lfloor>a / b\<rfloor>"

definition gridCell :: "Env \<Rightarrow> int \<Rightarrow> int \<Rightarrow> GridCell" where
  "gridCell env row col =
     (let worldX = col;
          worldY = row;
          digitSeed = xor32 (worldX * 73856093) (worldY * 19349663);
          CELL_SIZE = grid_cellSize (config env);
          CELL_HEIGHT = grid_cellHeight (config env);
          jitterSeed = xor32 (worldX * 12345) (worldY * 67890)
      in \<lparr>digit = \<bar>digitSeed\<bar> mod 10,
          baseX = of_int col * CELL_SIZE + CELL_SIZE / 2,
          baseY = of_int row * CELL_HEIGHT + CELL_HEIGHT / 2,
          jitterType = \<bar>jitterSeed\<bar> mod 100,
          jitterPhase = fmod (of_int \<bar>jitterSeed\<bar> * 0.01) (pi * 2)\<rparr>)"

definition generateJitteryGrid :: "Env \<Rightarrow> GridCell list list" where
  "generateJitteryGrid env =
     (let cols = \<lfloor>screenWidth env / grid_cellSize (config env)\<rfloor>;
          rows = \<lfloor>(screenHeight env - 120) / grid_cellHeight (config env)\<rfloor>
      in map (\<lambda>row. map (\<lambda>col. gridCell env row col) [0..cols - 1]) [0..rows - 1])"

text \<open>
  \<^verbatim>\<open>JITTER_PRESETS[...].multiplier\<close>, and the offset computed from a cell's jitter type
  and phase. The \<^verbatim>\<open>opacity\<close> of the result, 1 on every path, is left out.
\<close>

definition presetMultiplier :: "JitterIntensity \<Rightarrow> real" where
  "presetMultiplier i =
     (case i of subtle \<Rightarrow> 0.55 | moderate \<Rightarrow> 0.63 | dramatic \<Rightarrow> 0.75 | extreme \<Rightarrow> 1)"

definition getJitterOffset :: "Env \<Rightarrow> GridState \<Rightarrow> int \<Rightarrow> real \<Rightarrow> Point" where
  "getJitterOffset env s jType jPhase =
     (if \<not> enableJitter (jitter (config env)) then \<lparr>px = 0, py = 0\<rparr>
      else
        (let time = globalTime s * 0.1;
             intensityMultiplier = presetMultiplier (intensity (jitter (config env)));
             staticThreshold = staticPercentage (jitter (config env));
             extremeThreshold = staticThreshold + extremePercentage (jitter (config env));
             strongThreshold = extremeThreshold + strongPercentage (jitter (config env))
         in if of_int jType < staticThreshold then \<lparr>px = 0, py = 0\<rparr>
            else if of_int jType < extremeThreshold then
              \<lparr>px = sin (time * 4 + jPhase) * (15 * intensityMultiplier),
               py = cos (time * 3.5 + jPhase) * (12 * intensityMultiplier)\<rparr>
            else if of_int jType < strongThreshold then
              (let direction = jType mod 3
               in if direction = 0 then
                    \<lparr>px = sin (time * 2.5 + jPhase) * (8 * intensityMultiplier), py = 0\<rparr>
                  else if direction = 1 then
                    \<lparr>px = 0, py = sin (time * 2.2 + jPhase) * (6 * intensityMultiplier)\<rparr>
                  else
                    \<lparr>px = sin (time * 2 + jPhase) * (5 * intensityMultiplier),
                     py = cos (time * 1.8 + jPhase) * (4 * intensityMultiplier)\<rparr>)
            else
              \<lparr>px = sin (time * 1.5 + jPhase) * (3 * intensityMultiplier),
               py = cos (time * 1.2 + jPhase) * (2.5 * intensityMultiplier)\<rparr>))"

text \<open>The jitter offset the render loop computes for the cell at a row and a column.\<close>

definition cellJitterOffset :: "Env \<Rightarrow> GridState \<Rightarrow> int \<Rightarrow> int \<Rightarrow> Point" where
  "cellJitterOffset env s row col =
     getJitterOffset env s (jitterType (gridCell env row col)) (jitterPhase (gridCell env row col))"

subsection \<open>The pan responder's handlers\<close>

text \<open>
  A handler reads \<^verbatim>\<open>cursor.position\<close> from the store as it stands when the handler runs
  (the component has rendered since the last write). Calls of the feedback system and the
  timer that resets \<^verbatim>\<open>worldScale\<close> 200 ms after a fast swipe are left out: no state
  modelled here depends on them.
\<close>

definition onPanResponderGrant :: "real \<Rightarrow> GridState \<Rightarrow> GridState" where
  "onPanResponderGrant now s = s\<lparr>lastPanTime := now\<rparr>"





definition onPanResponderRelease :: "Env \<Rightarrow> GestureState \<Rightarrow> GridState \<Rightarrow> GridState" where
  "onPanResponderRelease env g s =
     (if isLassoMode s then
        s\<lparr>isLassoMode := False,
          store := setCursorMode Exploration (store s),
          lassoPoints := []\<rparr>
      else
        (let releaseVelX = vx g;
             releaseVelY = vy g;
             releaseSpeed = sqrt (releaseVelX * releaseVelX + releaseVelY * releaseVelY);
             trackballMultiplier =
               (if releaseSpeed > 1000 then cursor_momentum (config env) * 4.0
                else if releaseSpeed > 500 then cursor_momentum (config env) * 2.5
                else if releaseSpeed > 200 then cursor_momentum (config env) * 1.8
                else cursor_momentum (config env));
             initialVelX = releaseVelX * trackballMultiplier;
             initialVelY = releaseVelY * trackballMultiplier
         in s\<lparr>cursorVelocity := \<lparr>px = initialVelX, py = initialVelY\<rparr>,
              store := updateCursorVelocity \<lparr>px = initialVelX, py = initialVelY\<rparr> (store s),
              momentumAnimationRef := True\<rparr>))"

text \<open>
  One run of the interval's callback. \<open>cursorPos\<close> is the \<^verbatim>\<open>cursor.position\<close> the
  callback closed over when the release handler created it.
\<close>

definition applyMomentum :: "Env \<Rightarrow> Point \<Rightarrow> GridState \<Rightarrow> GridState" where
  "applyMomentum env cursorPos s =
     (let prev = cursorVelocity s;
          currentSpeed = sqrt (px prev * px prev + py prev * py prev);
          friction = (if currentSpeed > 300 then 0.985
                      else if currentSpeed > 150 then 0.975
                      else if currentSpeed > 75 then 0.965
                      else 0.93);
          newVelX = px prev * friction;
          newVelY = py prev * friction
      in if \<bar>newVelX\<bar> < 0.02 \<and> \<bar>newVelY\<bar> < 0.02 then
           s\<lparr>momentumAnimationRef := False,
             store := updateCursorVelocity \<lparr>px = 0, py = 0\<rparr> (store s),
             cursorVelocity := \<lparr>px = 0, py = 0\<rparr>\<rparr>
         else
           (let newCursorX = max 20 (min (screenWidth env - 20) (px cursorPos + newVelX));
                newCursorY = max 20 (min (screenHeight env - 130) (py cursorPos + newVelY))
            in s\<lparr>store := updateCursorVelocity \<lparr>px = newVelX, py = newVelY\<rparr>
                            (updateCursorPosition \<lparr>px = newCursorX, py = newCursorY\<rparr> (store s)),
                 cursorVelocity := \<lparr>px = newVelX, py = newVelY\<rparr>\<rparr>))"


section \<open>MDRInterface\<close>

text \<open>
  The interface's pan responder writes to the same store. \<open>holdTimers\<close> are the due
  times of the timeouts its grant handler has set and that have not fired yet; the
  source keeps no handle of them and never clears one.
\<close>

record InterfaceState =
  gameStore :: GameStore
  holdTimers :: "real list"

definition iface_onPanResponderGrant :: "real \<Rightarrow> InterfaceState \<Rightarrow> InterfaceState" where
  "iface_onPanResponderGrant now s = s\<lparr>holdTimers := holdTimers s @ [now + 325]\<rparr>"

definition iface_onPanResponderMove :: "GestureState \<Rightarrow> GameStore \<Rightarrow> GameStore" where
  "iface_onPanResponderMove g st = updateCursorPosition \<lparr>px = moveX g, py = moveY g\<rparr> st"

definition iface_onPanResponderRelease :: "GameStore \<Rightarrow> GameStore" where
  "iface_onPanResponderRelease st = setCursorMode Exploration st"

text \<open>The clock reaches \<open>now\<close>: every timeout due by then runs its callback.\<close>

fun fireTimers :: "real \<Rightarrow> real list \<Rightarrow> GameStore \<Rightarrow> real list \<times> GameStore" where
  "fireTimers now [] st = ([], st)"
| "fireTimers now (t # ts) st =
     (if t \<le> now then fireTimers now ts (setCursorMode Pinpoint st)
      else (case fireTimers now ts st of (ts', st') \<Rightarrow> (t # ts', st')))"

definition advanceTo :: "real \<Rightarrow> InterfaceState \<Rightarrow> InterfaceState" where
  "advanceTo now s =
     (case fireTimers now (holdTimers s) (gameStore s) of
        (ts, st) \<Rightarrow> s\<lparr>gameStore := st, holdTimers := ts\<rparr>)"

datatype PointerEvent = TouchDown | TouchMove GestureState | TouchUp

text \<open>An event at a time: the timeouts due by then have run, then the handler runs.\<close>

definition deliver :: "InterfaceState \<Rightarrow> real \<times> PointerEvent \<Rightarrow> InterfaceState" where
  "deliver s e =
     (let s1 = advanceTo (fst e) s
      in case snd e of
           TouchDown \<Rightarrow> iface_onPanResponderGrant (fst e) s1
         | TouchMove g \<Rightarrow> s1\<lparr>gameStore := iface_onPanResponderMove g (gameStore s1)\<rparr>
         | TouchUp \<Rightarrow> s1\<lparr>gameStore := iface_onPanResponderRelease (gameStore s1)\<rparr>)"

text \<open>The cursor mode at time \<open>t\<close>, after the events of a script (in time order).\<close>

definition modeAt :: "real \<Rightarrow> (real \<times> PointerEvent) list \<Rightarrow> InterfaceState \<Rightarrow> CursorMode" where
  "modeAt t evs s = mode (cursor (gameStore (advanceTo t (foldl deliver s evs))))"

section \<open>Concrete states\<close>

definition origin :: Point where
  "origin = \<lparr>px = 0, py = 0\<rparr>"

text \<open>The store's \<^verbatim>\<open>initialGameState\<close> (the fields modelled).\<close>

definition initialGameState :: GameStore where
  "initialGameState =
     \<lparr>world = \<lparr>viewport = \<lparr>rx = 0, ry = 0, width = 0, height = 0\<rparr>,
               scale = 1, numbers = []\<rparr>,
      cursor = \<lparr>position = origin, worldPosition = origin, mode = Exploration,
                velocity = origin, isMoving = False\<rparr>,
      lasso = \<lparr>points = [], isActive = False, isClosed = False, capturedNumbers = [],
               centerPoint = origin\<rparr>,
      sessionCaptured = []\<rparr>"

text \<open>A window of 390 by 844 with the tuning store's default configuration.\<close>

definition defaultConfig :: TuningConfig where
  "defaultConfig =
     \<lparr>jitter = \<lparr>intensity = dramatic, enableJitter = True, staticPercentage = 5,
                moderatePercentage = 50, strongPercentage = 30, extremePercentage = 15\<rparr>,
      cursor_sensitivity = 8.0, cursor_momentum = 0.15,
      grid_cellSize = 42, grid_cellHeight = 42\<rparr>"

definition phoneEnv :: Env where
  "phoneEnv = \<lparr>screenWidth = 390, screenHeight = 844, config = defaultConfig\<rparr>"

text \<open>The component's initial state hooks over a store.\<close>

definition initialGridState :: "GameStore \<Rightarrow> GridState" where
  "initialGridState st =
     \<lparr>globalTime = 0, worldScale = 1.0, isLassoMode = False, lassoPoints = [],
      cursorVelocity = origin, lastPanTime = 0, velocityTracker = origin,
      momentumAnimationRef = False, store = st\<rparr>"

text \<open>A store whose viewport is the window of 390 by 844.\<close>

definition phoneStore :: GameStore where
  "phoneStore = updateViewport \<lparr>rx = 0, ry = 0, width = 390, height = 844\<rparr> initialGameState"

text \<open>
  The entity \<^verbatim>\<open>createNumberAtGridCell\<close> makes for a column and a row, at the centre
  \<^verbatim>\<open>getGridCellCenter\<close> gives; the random choices (temper, value, scary) and the id's
  random suffix are fixed.
\<close>

definition getGridCellCenter :: "WorldSystem \<Rightarrow> int \<Rightarrow> int \<Rightarrow> Point" where
  "getGridCellCenter ws col row =
     \<lparr>px = of_int col * (cellSize ws + cellSpacing ws) + cellSize ws / 2,
      py = of_int row * (cellSize ws + cellSpacing ws) + cellSize ws / 2\<rparr>"

definition numberAt :: "WorldSystem \<Rightarrow> string \<Rightarrow> int \<Rightarrow> int \<Rightarrow> NumberEntity" where
  "numberAt ws ident col row =
     \<lparr>entity_id = ident, entity_value = 7,
      position = getGridCellCenter ws col row,
      worldPosition = getGridCellCenter ws col row,
      temper = WO, isPinned = False, pinStrength = 0, isScary = False,
      wellupIntensity = 0\<rparr>"

text \<open>The magnitude of a velocity, and the state after \<open>n\<close> runs of the momentum callback.\<close>

definition speed :: "Point \<Rightarrow> real" where
  "speed v = sqrt (px v * px v + py v * py v)"

primrec momentumTicks :: "Env \<Rightarrow> Point \<Rightarrow> nat \<Rightarrow> GridState \<Rightarrow> GridState" where
  "momentumTicks env cursorPos 0 s = s"
| "momentumTicks env cursorPos (Suc n) s =
     applyMomentum env cursorPos (momentumTicks env cursorPos n s)"

text \<open>A gesture that only carries a release velocity.\<close>

definition flick :: "real \<Rightarrow> real \<Rightarrow> GestureState" where
  "flick velX velY =
     \<lparr>x0 = 0, y0 = 0, moveX = 0, moveY = 0, dx = 0, dy = 0, vx = velX, vy = velY\<rparr>"

text \<open>
  The rectangle the handlers clamp the cursor to: \<open>m\<close> inside the window on the left,
  on the right and at the top, and 130 above the window's bottom edge (the playable
  area ends 120 above it).
\<close>

definition cursorBounds :: "Env \<Rightarrow> real \<Rightarrow> Point \<Rightarrow> bool" where
  "cursorBounds env m p \<longleftrightarrow>
     m \<le> px p \<and> px p \<le> screenWidth env - m \<and> m \<le> py p \<and> py p \<le> screenHeight env - 130"


text \<open>
  The component in lasso mode, the cursor in the window's top left corner at \<open>(10, 10)\<close>,
  over a store whose viewport has been panned by \<open>(100, 100)\<close>.
\<close>

definition lassoAtCorner :: GridState where
  "lassoAtCorner =
     (initialGridState
        (updateCursorPosition \<lparr>px = 10, py = 10\<rparr> (panViewport newWorldSystem 100 100 phoneStore)))
     \<lparr>isLassoMode := True\<rparr>"



text \<open>
  A second environment: a window of 1024 by 768 with cells of 60 by 48 and other
  cursor options, and the same jitter options.
\<close>

definition tabletEnv :: Env where
  "tabletEnv =
     \<lparr>screenWidth = 1024, screenHeight = 768,
      config = defaultConfig\<lparr>cursor_sensitivity := 4, cursor_momentum := 0.3,
                 grid_cellSize := 60, grid_cellHeight := 48\<rparr>\<rparr>"

section \<open>Properties of WorldSystem\<close>

lemma newWorldSystem_fields:
  "gridCols newWorldSystem = 50" "gridRows newWorldSystem = 80"
  "cellSize newWorldSystem = 24" "cellSpacing newWorldSystem = 2"
  "viewportMargin newWorldSystem = 16" "spatialGridSize newWorldSystem = 100"
  by (simp_all add: newWorldSystem_def initializeSpatialGrid_def Let_def)

lemma newWorldSystem_size:
  "getWorldWidth newWorldSystem = 1300" "getWorldHeight newWorldSystem = 2080"
  by (simp_all add: getWorldWidth_def getWorldHeight_def newWorldSystem_fields)

lemma viewport_panViewport:
  "viewport (world (panViewport ws deltaX deltaY st)) =
     constrainToWorldBounds ws
       ((viewport (world st))\<lparr>rx := rx (viewport (world st)) + deltaX,
                                ry := ry (viewport (world st)) + deltaY\<rparr>)"
  by (simp add: panViewport_def updateViewport_def Let_def)

text \<open>
  Claim C3 (viewport clamp), as the code has it. After \<open>panViewport\<close> the viewport's
  origin is at least \<open>- margin\<close> on both axes, for every starting viewport and every pan
  delta. The upper bound \<open>origin + size \<le> worldSize + margin\<close> holds on an axis whenever
  the viewport's size on that axis is at most \<open>worldSize + 2 * margin\<close>: the lower clamp
  is applied last and wins when the viewport is larger than the world and its margins.
\<close>

theorem panViewport_clamp:
  "- viewportMargin ws \<le> rx (viewport (world (panViewport ws deltaX deltaY st))) \<and>
   - viewportMargin ws \<le> ry (viewport (world (panViewport ws deltaX deltaY st))) \<and>
   (width (viewport (world st)) \<le> getWorldWidth ws + 2 * viewportMargin ws \<longrightarrow>
      rx (viewport (world (panViewport ws deltaX deltaY st)))
        + width (viewport (world (panViewport ws deltaX deltaY st)))
      \<le> getWorldWidth ws + viewportMargin ws) \<and>
   (height (viewport (world st)) \<le> getWorldHeight ws + 2 * viewportMargin ws \<longrightarrow>
      ry (viewport (world (panViewport ws deltaX deltaY st)))
        + height (viewport (world (panViewport ws deltaX deltaY st)))
      \<le> getWorldHeight ws + viewportMargin ws)"
  by (auto simp add: viewport_panViewport constrainToWorldBounds_def)

text \<open>The clamp at work: a viewport of 390 by 844 panned far right and far up.\<close>

theorem panViewport_clamp_witness:
  "width (viewport (world (updateViewport \<lparr>rx = 0, ry = 0, width = 390, height = 844\<rparr> initialGameState)))
     \<le> getWorldWidth newWorldSystem + 2 * viewportMargin newWorldSystem \<and>
   height (viewport (world (updateViewport \<lparr>rx = 0, ry = 0, width = 390, height = 844\<rparr> initialGameState)))
     \<le> getWorldHeight newWorldSystem + 2 * viewportMargin newWorldSystem \<and>
   viewport (world (panViewport newWorldSystem 5000 (- 5000)
       (updateViewport \<lparr>rx = 0, ry = 0, width = 390, height = 844\<rparr> initialGameState)))
     = \<lparr>rx = 926, ry = - 16, width = 390, height = 844\<rparr> \<and>
   (926 :: real) + 390 \<le> getWorldWidth newWorldSystem + viewportMargin newWorldSystem \<and>
   (- 16 :: real) + 844 \<le> getWorldHeight newWorldSystem + viewportMargin newWorldSystem"
  using panViewport_clamp [of newWorldSystem 5000 "- 5000"
      "updateViewport \<lparr>rx = 0, ry = 0, width = 390, height = 844\<rparr> initialGameState"]
  by (simp add: viewport_panViewport constrainToWorldBounds_def newWorldSystem_fields
      newWorldSystem_size updateViewport_def initialGameState_def)

text \<open>
  The upper bound as the claim states it, for every viewport, fails: a viewport 1400 wide
  over the world of width 1300 and margin 16 ends at \<open>- 16 + 1400 = 1384 > 1316\<close>.
\<close>

theorem panViewport_clamp_counterexample:
  "rx (viewport (world (panViewport newWorldSystem 0 0
        (updateViewport \<lparr>rx = 0, ry = 0, width = 1400, height = 844\<rparr> initialGameState)))) = - 16 \<and>
   width (viewport (world (panViewport newWorldSystem 0 0
        (updateViewport \<lparr>rx = 0, ry = 0, width = 1400, height = 844\<rparr> initialGameState)))) = 1400 \<and>
   \<not> (rx (viewport (world (panViewport newWorldSystem 0 0
        (updateViewport \<lparr>rx = 0, ry = 0, width = 1400, height = 844\<rparr> initialGameState))))
      + width (viewport (world (panViewport newWorldSystem 0 0
        (updateViewport \<lparr>rx = 0, ry = 0, width = 1400, height = 844\<rparr> initialGameState))))
      \<le> getWorldWidth newWorldSystem + viewportMargin newWorldSystem)"
  by (simp add: viewport_panViewport constrainToWorldBounds_def newWorldSystem_fields
      newWorldSystem_size updateViewport_def initialGameState_def)

text \<open>
  Claim C10 (frame of \<open>panViewport\<close>). For every starting viewport and every pan delta,
  the viewport's width and height after \<open>panViewport\<close>, clamping included, are those
  before the call; the rest of the store (scale, numbers, cursor, lasso, session) is
  untouched as well.
\<close>

theorem panViewport_frame:
  "width (viewport (world (panViewport ws deltaX deltaY st))) = width (viewport (world st)) \<and>
   height (viewport (world (panViewport ws deltaX deltaY st))) = height (viewport (world st)) \<and>
   scale (world (panViewport ws deltaX deltaY st)) = scale (world st) \<and>
   numbers (world (panViewport ws deltaX deltaY st)) = numbers (world st) \<and>
   cursor (panViewport ws deltaX deltaY st) = cursor st \<and>
   lasso (panViewport ws deltaX deltaY st) = lasso st \<and>
   sessionCaptured (panViewport ws deltaX deltaY st) = sessionCaptured st"
  by (simp add: panViewport_def updateViewport_def constrainToWorldBounds_def Let_def)

subsection \<open>The spatial index after one insertion\<close>

lemma floor_minus_one_real: "\<lfloor>- 1 :: real\<rfloor> = - 1"
  using floor_of_int [of "- 1", where ?'a = real] by simp

lemma spatialGrid_newWorldSystem:
  "spatialGrid newWorldSystem (gx, gy) =
     (if 0 \<le> gx \<and> gx < 13 \<and> 0 \<le> gy \<and> gy < 21 then Some [] else None)"
  by (simp add: newWorldSystem_def initializeSpatialGrid_def getWorldWidth_def getWorldHeight_def)

lemma numberAt_3_0:
  "NumberEntity.worldPosition (numberAt newWorldSystem i 3 0) = \<lparr>px = 90, py = 12\<rparr>"
  "entity_id (numberAt newWorldSystem i 3 0) = i"
  by (simp_all add: numberAt_def getGridCellCenter_def newWorldSystem_fields)

lemma cells_3_0:
  "spatialGridSize ws = 100 \<Longrightarrow> cellSize ws = 24 \<Longrightarrow>
   getSpatialCellsForNumber ws (numberAt newWorldSystem i 3 0) = [(0, 0), (1, 0)]"
  by (simp add: getSpatialCellsForNumber_def numberAt_3_0 cellKeys_def Let_def upto.simps)

lemma removeFromCell_fields:
  "spatialGridSize (removeFromCell n ws k) = spatialGridSize ws"
  "cellSize (removeFromCell n ws k) = cellSize ws"
  by (simp_all add: removeFromCell_def split: option.splits)

lemma pushToCell_fields:
  "spatialGridSize (pushToCell n ws k) = spatialGridSize ws"
  "cellSize (pushToCell n ws k) = cellSize ws"
  by (simp_all add: pushToCell_def split: option.splits)

lemma remove_3_0_grid:
  "spatialGrid (removeFromSpatialGrid (numberAt newWorldSystem i 3 0) newWorldSystem)
     = spatialGrid newWorldSystem"
  by (rule ext)
    (simp add: removeFromSpatialGrid_def cells_3_0 newWorldSystem_fields removeFromCell_def
      spatialGrid_newWorldSystem split_paired_all)

lemma remove_3_0_fields:
  "spatialGridSize (removeFromSpatialGrid (numberAt newWorldSystem i 3 0) newWorldSystem) = 100"
  "cellSize (removeFromSpatialGrid (numberAt newWorldSystem i 3 0) newWorldSystem) = 24"
  by (simp_all add: removeFromSpatialGrid_def cells_3_0 newWorldSystem_fields removeFromCell_fields)

lemma update_3_0_grid:
  "spatialGrid (updateSpatialGrid (numberAt newWorldSystem i 3 0) newWorldSystem) (gx, gy) =
     (if (gx, gy) = (0, 0) \<or> (gx, gy) = (1, 0) then Some [numberAt newWorldSystem i 3 0]
      else spatialGrid newWorldSystem (gx, gy))"
  by (simp add: updateSpatialGrid_def Let_def cells_3_0 remove_3_0_fields pushToCell_def
      remove_3_0_grid spatialGrid_newWorldSystem)

lemma update_3_0_size:
  "spatialGridSize (updateSpatialGrid (numberAt newWorldSystem i 3 0) newWorldSystem) = 100"
  by (simp add: updateSpatialGrid_def Let_def cells_3_0 remove_3_0_fields pushToCell_fields)

lemma phoneStore_added:
  "viewport (world (addNumber_store n phoneStore)) = \<lparr>rx = 0, ry = 0, width = 390, height = 844\<rparr>"
  "scale (world (addNumber_store n phoneStore)) = 1"
  "numbers (world (addNumber_store n phoneStore)) = [n]"
  by (simp_all add: addNumber_store_def phoneStore_def updateViewport_def initialGameState_def)

lemma cells_phone:
  "getSpatialCellsInViewport (updateSpatialGrid (numberAt newWorldSystem i 3 0) newWorldSystem)
      \<lparr>rx = - 100, ry = - 100, width = 590, height = 1044\<rparr>
   = cellKeys (- 1) 4 (- 1) 9"
  by (simp add: getSpatialCellsInViewport_def update_3_0_size floor_minus_one_real)

lemma visibleInCell_3_0:
  "visibleInCell (updateSpatialGrid (numberAt newWorldSystem i 3 0) newWorldSystem)
      (addNumber_store (numberAt newWorldSystem i 3 0) phoneStore)
      \<lparr>rx = - 100, ry = - 100, width = 590, height = 1044\<rparr>
   = (\<lambda>k. if k = (0, 0) \<or> k = (1, 0) then [numberAt newWorldSystem i 3 0] else [])"
  by (rule ext)
    (simp add: visibleInCell_def update_3_0_grid spatialGrid_newWorldSystem isPointInViewport_def
      worldToScreen_def phoneStore_added numberAt_3_0 split_paired_all)

lemma getVisibleNumbers_3_0:
  "getVisibleNumbers (updateSpatialGrid (numberAt newWorldSystem i 3 0) newWorldSystem)
      (addNumber_store (numberAt newWorldSystem i 3 0) phoneStore)
   = [numberAt newWorldSystem i 3 0, numberAt newWorldSystem i 3 0]"
  by (simp add: getVisibleNumbers_def Let_def phoneStore_added cells_phone visibleInCell_3_0
      cellKeys_def upto.simps)

text \<open>
  Claim C6 (no duplicates in the visible set) fails on the code. The entity made for
  column 3, row 0 sits at \<open>(90, 12)\<close>; its footprint of 24 reaches \<open>x = 114\<close>, so
  \<open>updateSpatialGrid\<close> files it under the two buckets \<open>(0, 0)\<close> and \<open>(1, 0)\<close>.
  \<open>getVisibleNumbers\<close> walks every bucket of the expanded viewport and pushes what it
  finds with no check for an entity it has already pushed: after this single insertion
  it returns the entity twice. The store's getter of the same name, a filter over the
  list of numbers, returns it once.
\<close>

theorem getVisibleNumbers_duplicate:
  "addNumber (numberAt newWorldSystem ''number_3_0'' 3 0) (newWorldSystem, phoneStore) =
     (updateSpatialGrid (numberAt newWorldSystem ''number_3_0'' 3 0) newWorldSystem,
      addNumber_store (numberAt newWorldSystem ''number_3_0'' 3 0) phoneStore) \<and>
   map entity_id
     (getVisibleNumbers (updateSpatialGrid (numberAt newWorldSystem ''number_3_0'' 3 0) newWorldSystem)
        (addNumber_store (numberAt newWorldSystem ''number_3_0'' 3 0) phoneStore))
     = [''number_3_0'', ''number_3_0''] \<and>
   map entity_id
     (getVisibleNumbers_store (addNumber_store (numberAt newWorldSystem ''number_3_0'' 3 0) phoneStore))
     = [''number_3_0'']"
  by (simp add: addNumber_def getVisibleNumbers_3_0 numberAt_3_0 getVisibleNumbers_store_def
      phoneStore_added)

section \<open>Properties of the momentum decay\<close>

lemma applyMomentum_velocity:
  "\<exists>f. 0 < f \<and> f \<le> 0.985 \<and>
     cursorVelocity (applyMomentum env c s) =
       (if \<bar>px (cursorVelocity s) * f\<bar> < 0.02 \<and> \<bar>py (cursorVelocity s) * f\<bar> < 0.02
        then \<lparr>px = 0, py = 0\<rparr>
        else \<lparr>px = px (cursorVelocity s) * f, py = py (cursorVelocity s) * f\<rparr>)"
proof -
  define f :: real where
    "f = (if speed (cursorVelocity s) > 300 then 0.985
          else if speed (cursorVelocity s) > 150 then 0.975
          else if speed (cursorVelocity s) > 75 then 0.965
          else 0.93)"
  have "0 < f" and "f \<le> 0.985"
    by (simp_all add: f_def)
  moreover have "cursorVelocity (applyMomentum env c s) =
       (if \<bar>px (cursorVelocity s) * f\<bar> < 0.02 \<and> \<bar>py (cursorVelocity s) * f\<bar> < 0.02
        then \<lparr>px = 0, py = 0\<rparr>
        else \<lparr>px = px (cursorVelocity s) * f, py = py (cursorVelocity s) * f\<rparr>)"
    unfolding f_def by (simp add: applyMomentum_def Let_def speed_def)
  ultimately show ?thesis by blast
qed

lemma applyMomentum_velocity_cases:
  "cursorVelocity (applyMomentum env c s) = \<lparr>px = 0, py = 0\<rparr> \<or>
   (\<exists>f. 0 < f \<and> f \<le> 0.985 \<and>
      cursorVelocity (applyMomentum env c s) =
        \<lparr>px = px (cursorVelocity s) * f, py = py (cursorVelocity s) * f\<rparr>)"
proof -
  from applyMomentum_velocity [of env c s] obtain f :: real
    where "0 < f" "f \<le> 0.985"
      and "cursorVelocity (applyMomentum env c s) =
       (if \<bar>px (cursorVelocity s) * f\<bar> < 0.02 \<and> \<bar>py (cursorVelocity s) * f\<bar> < 0.02
        then \<lparr>px = 0, py = 0\<rparr>
        else \<lparr>px = px (cursorVelocity s) * f, py = py (cursorVelocity s) * f\<rparr>)"
    by blast
  then show ?thesis
    by (cases "\<bar>px (cursorVelocity s) * f\<bar> < 0.02 \<and> \<bar>py (cursorVelocity s) * f\<bar> < 0.02")
      auto
qed

lemma applyMomentum_rest:
  assumes "\<bar>px (cursorVelocity s)\<bar> < 0.02" and "\<bar>py (cursorVelocity s)\<bar> < 0.02"
  shows "cursorVelocity (applyMomentum env c s) = \<lparr>px = 0, py = 0\<rparr>"
proof -
  from applyMomentum_velocity [of env c s] obtain f :: real
    where f: "0 < f" "f \<le> 0.985"
      and v: "cursorVelocity (applyMomentum env c s) =
       (if \<bar>px (cursorVelocity s) * f\<bar> < 0.02 \<and> \<bar>py (cursorVelocity s) * f\<bar> < 0.02
        then \<lparr>px = 0, py = 0\<rparr>
        else \<lparr>px = px (cursorVelocity s) * f, py = py (cursorVelocity s) * f\<rparr>)"
    by blast
  have small: "\<bar>a * f\<bar> < 0.02" if "\<bar>a\<bar> < 0.02" for a :: real
  proof -
    have "\<bar>a * f\<bar> = \<bar>a\<bar> * f" using f by (simp add: abs_mult)
    also have "\<dots> \<le> \<bar>a\<bar> * 1" using f by (intro mult_left_mono) simp_all
    finally show ?thesis using that by linarith
  qed
  from small [OF assms(1)] small [OF assms(2)] show ?thesis
    unfolding v by (rule if_P [OF conjI])
qed

lemma applyMomentum_zero:
  "cursorVelocity s = \<lparr>px = 0, py = 0\<rparr> \<Longrightarrow>
   cursorVelocity (applyMomentum env c s) = \<lparr>px = 0, py = 0\<rparr>"
  by (rule applyMomentum_rest) simp_all

lemma momentumTicks_zero:
  "cursorVelocity s = \<lparr>px = 0, py = 0\<rparr> \<Longrightarrow>
   cursorVelocity (momentumTicks env c n s) = \<lparr>px = 0, py = 0\<rparr>"
  by (induction n) (simp_all add: applyMomentum_zero)

lemma momentumTicks_add:
  "momentumTicks env c (m + n) s = momentumTicks env c m (momentumTicks env c n s)"
  by (induction m) simp_all

lemma speed_zero: "speed \<lparr>px = 0, py = 0\<rparr> = 0"
  by (simp add: speed_def)

lemma speed_scaled:
  assumes "0 < f" and "f \<le> 1"
  shows "speed \<lparr>px = px v * f, py = py v * f\<rparr> \<le> speed v"
proof -
  have "f * f \<le> 1 * 1" using assms by (intro mult_mono) simp_all
  then have "f * f * (px v * px v + py v * py v) \<le> 1 * (px v * px v + py v * py v)"
    by (intro mult_right_mono) simp_all
  then have "px v * f * (px v * f) + py v * f * (py v * f) \<le> px v * px v + py v * py v"
    by (simp add: algebra_simps)
  then show ?thesis by (simp add: speed_def)
qed

lemma applyMomentum_speed:
  "speed (cursorVelocity (applyMomentum env c s)) \<le> speed (cursorVelocity s)"
  using applyMomentum_velocity_cases [of env c s]
proof
  assume "cursorVelocity (applyMomentum env c s) = \<lparr>px = 0, py = 0\<rparr>"
  then show ?thesis by (simp add: speed_zero) (simp add: speed_def)
next
  assume "\<exists>f. 0 < f \<and> f \<le> 0.985 \<and> cursorVelocity (applyMomentum env c s) =
            \<lparr>px = px (cursorVelocity s) * f, py = py (cursorVelocity s) * f\<rparr>"
  then obtain f where f: "0 < f" "f \<le> 0.985"
    and v: "cursorVelocity (applyMomentum env c s) =
            \<lparr>px = px (cursorVelocity s) * f, py = py (cursorVelocity s) * f\<rparr>"
    by blast
  from f have "f \<le> 1" by simp
  with f(1) show ?thesis unfolding v by (rule speed_scaled)
qed

lemma momentumTicks_bound:
  "cursorVelocity (momentumTicks env c n s) = \<lparr>px = 0, py = 0\<rparr> \<or>
   (\<bar>px (cursorVelocity (momentumTicks env c n s))\<bar> \<le> 0.985 ^ n * \<bar>px (cursorVelocity s)\<bar> \<and>
    \<bar>py (cursorVelocity (momentumTicks env c n s))\<bar> \<le> 0.985 ^ n * \<bar>py (cursorVelocity s)\<bar>)"
proof (induction n)
  case 0
  show ?case by simp
next
  case (Suc n)
  let ?t = "momentumTicks env c n s"
  from Suc.IH show ?case
  proof
    assume "cursorVelocity ?t = \<lparr>px = 0, py = 0\<rparr>"
    then show ?thesis by (simp add: applyMomentum_zero)
  next
    assume IH: "\<bar>px (cursorVelocity ?t)\<bar> \<le> 0.985 ^ n * \<bar>px (cursorVelocity s)\<bar> \<and>
                \<bar>py (cursorVelocity ?t)\<bar> \<le> 0.985 ^ n * \<bar>py (cursorVelocity s)\<bar>"
    from applyMomentum_velocity_cases [of env c ?t] show ?thesis
    proof
      assume "cursorVelocity (applyMomentum env c ?t) = \<lparr>px = 0, py = 0\<rparr>"
      then show ?thesis by simp
    next
      assume "\<exists>f. 0 < f \<and> f \<le> 0.985 \<and> cursorVelocity (applyMomentum env c ?t) =
            \<lparr>px = px (cursorVelocity ?t) * f, py = py (cursorVelocity ?t) * f\<rparr>"
      then obtain f :: real where f: "0 < f" "f \<le> 0.985"
        and v: "cursorVelocity (applyMomentum env c ?t) =
            \<lparr>px = px (cursorVelocity ?t) * f, py = py (cursorVelocity ?t) * f\<rparr>"
        by blast
      have step: "\<bar>a * f\<bar> \<le> 0.985 ^ Suc n * b" if "\<bar>a\<bar> \<le> 0.985 ^ n * b" for a b :: real
      proof -
        have "\<bar>a * f\<bar> = f * \<bar>a\<bar>" using f by (simp add: abs_mult)
        also have "\<dots> \<le> 0.985 * (0.985 ^ n * b)"
          using f that by (intro mult_mono) simp_all
        finally show ?thesis by simp
      qed
      from IH have "\<bar>px (cursorVelocity ?t) * f\<bar> \<le> 0.985 ^ Suc n * \<bar>px (cursorVelocity s)\<bar>"
        and "\<bar>py (cursorVelocity ?t) * f\<bar> \<le> 0.985 ^ Suc n * \<bar>py (cursorVelocity s)\<bar>"
        by (blast intro: step)+
      then show ?thesis
        unfolding momentumTicks.simps v by (intro disjI2) (simp del: power_Suc)
    qed
  qed
qed

lemma momentumTicks_reaches_zero:
  "\<exists>N. cursorVelocity (momentumTicks env c N s) = \<lparr>px = 0, py = 0\<rparr>"
proof -
  define m where "m = \<bar>px (cursorVelocity s)\<bar> + \<bar>py (cursorVelocity s)\<bar> + 1"
  have m_pos: "0 < m" by (simp add: m_def)
  have "\<exists>n. (0.985::real) ^ n < 0.02 / m"
    using m_pos by (intro real_arch_pow_inv) simp_all
  then obtain n where n: "(0.985::real) ^ n < 0.02 / m" by blast
  then have nm: "0.985 ^ n * m < 0.02"
    using m_pos by (simp add: pos_less_divide_eq)
  have le: "0.985 ^ n * a \<le> 0.985 ^ n * m" if "a \<le> m" for a :: real
    using that by (intro mult_left_mono) simp_all
  let ?t = "momentumTicks env c n s"
  from momentumTicks_bound [of env c n s] show ?thesis
  proof
    assume "cursorVelocity ?t = \<lparr>px = 0, py = 0\<rparr>"
    then show ?thesis by blast
  next
    assume b: "\<bar>px (cursorVelocity ?t)\<bar> \<le> 0.985 ^ n * \<bar>px (cursorVelocity s)\<bar> \<and>
               \<bar>py (cursorVelocity ?t)\<bar> \<le> 0.985 ^ n * \<bar>py (cursorVelocity s)\<bar>"
    have "\<bar>px (cursorVelocity s)\<bar> \<le> m" and "\<bar>py (cursorVelocity s)\<bar> \<le> m"
      by (simp_all add: m_def)
    then have "0.985 ^ n * \<bar>px (cursorVelocity s)\<bar> \<le> 0.985 ^ n * m"
      and "0.985 ^ n * \<bar>py (cursorVelocity s)\<bar> \<le> 0.985 ^ n * m"
      by (blast intro: le)+
    with b nm have "\<bar>px (cursorVelocity ?t)\<bar> < 0.02" and "\<bar>py (cursorVelocity ?t)\<bar> < 0.02"
      by linarith+
    then have "cursorVelocity (momentumTicks env c (Suc n) s) = \<lparr>px = 0, py = 0\<rparr>"
      unfolding momentumTicks.simps by (rule applyMomentum_rest)
    then show ?thesis by blast
  qed
qed

text \<open>
  Claim C4 (momentum decay). From every state, hence for every release velocity, and
  whatever cursor position the callback closed over: the magnitude of the velocity does not
  increase from one run of \<open>applyMomentum\<close> to the next, and after finitely many runs the
  velocity is exactly \<open>{x: 0, y: 0}\<close> and stays so on every later run.
\<close>

theorem momentum_decay:
  "(\<forall>n. speed (cursorVelocity (momentumTicks env c (Suc n) s))
          \<le> speed (cursorVelocity (momentumTicks env c n s))) \<and>
   (\<exists>N. \<forall>k. cursorVelocity (momentumTicks env c (k + N) s) = \<lparr>px = 0, py = 0\<rparr>)"
proof
  show "\<forall>n. speed (cursorVelocity (momentumTicks env c (Suc n) s))
          \<le> speed (cursorVelocity (momentumTicks env c n s))"
    by (simp add: applyMomentum_speed)
next
  from momentumTicks_reaches_zero [of env c s]
  obtain N where "cursorVelocity (momentumTicks env c N s) = \<lparr>px = 0, py = 0\<rparr>" by blast
  then have "\<forall>k. cursorVelocity (momentumTicks env c (k + N) s) = \<lparr>px = 0, py = 0\<rparr>"
    by (simp add: momentumTicks_add momentumTicks_zero)
  then show "\<exists>N. \<forall>k. cursorVelocity (momentumTicks env c (k + N) s) = \<lparr>px = 0, py = 0\<rparr>"
    by blast
qed

section \<open>Properties of the pan responder's handlers\<close>

lemma sqrt_million: "sqrt 1000000 = 1000"
  by (rule real_sqrt_unique) simp_all

text \<open>
  Claim C5 (momentum multiplier on release). On a release outside lasso mode the initial
  momentum velocity, in the component's state and in the store, is the release velocity
  times the configured momentum factor times one multiplier chosen by the release speed:
  4 above 1000, 2.5 above 500, 1.8 above 200, and 1 otherwise.
\<close>

theorem release_momentum_multiplier:
  assumes "\<not> isLassoMode s"
  shows "let releaseSpeed = sqrt (vx g * vx g + vy g * vy g);
             k = (if releaseSpeed > 1000 then 4
                  else if releaseSpeed > 500 then 2.5
                  else if releaseSpeed > 200 then 1.8
                  else 1);
             initialVel = \<lparr>px = vx g * (cursor_momentum (config env) * k),
                           py = vy g * (cursor_momentum (config env) * k)\<rparr>
         in cursorVelocity (onPanResponderRelease env g s) = initialVel \<and>
            velocity (cursor (store (onPanResponderRelease env g s))) = initialVel"
  using assms by (simp add: onPanResponderRelease_def Let_def updateCursorVelocity_def)

text \<open>
  A release at velocity \<open>(600, 800)\<close>, of speed exactly 1000 (not above it): the multiplier
  is 2.5, and with the default momentum factor 0.15 the velocity becomes \<open>(225, 300)\<close>.
\<close>

theorem release_momentum_multiplier_witness:
  "\<not> isLassoMode (initialGridState phoneStore) \<and>
   cursorVelocity (onPanResponderRelease phoneEnv (flick 600 800) (initialGridState phoneStore))
     = \<lparr>px = 225, py = 300\<rparr> \<and>
   velocity (cursor (store
      (onPanResponderRelease phoneEnv (flick 600 800) (initialGridState phoneStore))))
     = \<lparr>px = 225, py = 300\<rparr>"
  using release_momentum_multiplier [of "initialGridState phoneStore" "flick 600 800" phoneEnv]
  by (simp add: initialGridState_def flick_def phoneEnv_def defaultConfig_def sqrt_million Let_def)










lemma cursorBounds_mono:
  "m' \<le> m \<Longrightarrow> cursorBounds env m p \<Longrightarrow> cursorBounds env m' p"
  by (auto simp add: cursorBounds_def)





section \<open>Properties of the lasso release and of the hold timer\<close>


text \<open>
  The same from any state in lasso mode: the release touches neither the store's lasso,
  nor the session's captured ids, nor the world.
\<close>

lemma lasso_release_frame:
  assumes "isLassoMode s"
  shows "lasso (store (onPanResponderRelease env g s)) = lasso (store s)"
    and "sessionCaptured (store (onPanResponderRelease env g s)) = sessionCaptured (store s)"
    and "world (store (onPanResponderRelease env g s)) = world (store s)"
    and "lassoPoints (onPanResponderRelease env g s) = []"
  using assms by (simp_all add: onPanResponderRelease_def setCursorMode_def)


lemma fst_fireTimers:
  "fst (fireTimers now ts st) = filter (\<lambda>t. \<not> t \<le> now) ts"
  by (induction ts arbitrary: st) (simp_all add: case_prod_beta)

lemma snd_fireTimers_Cons:
  "snd (fireTimers now (t # ts) st) =
     (if t \<le> now then snd (fireTimers now ts (setCursorMode Pinpoint st))
      else snd (fireTimers now ts st))"
  by (simp add: case_prod_beta)

lemma fireTimers_mode:
  "mode (cursor (snd (fireTimers now ts st))) =
     (if \<exists>t \<in> set ts. t \<le> now then Pinpoint else mode (cursor st))"
proof (induction ts arbitrary: st)
  case Nil
  show ?case by simp
next
  case (Cons t ts)
  show ?case
    unfolding snd_fireTimers_Cons
    by (simp add: Cons.IH setCursorMode_def)
qed

lemma holdTimers_advanceTo:
  "holdTimers (advanceTo now s) = fst (fireTimers now (holdTimers s) (gameStore s))"
  by (simp add: advanceTo_def case_prod_beta)

lemma gameStore_advanceTo:
  "gameStore (advanceTo now s) = snd (fireTimers now (holdTimers s) (gameStore s))"
  by (simp add: advanceTo_def case_prod_beta)

text \<open>
  The same for a tap at any time and from any state of the interface: 325 ms after the
  touch down the cursor is in pinpoint mode, the touch long released.
\<close>

lemma tap_reaches_pinpoint_always:
  "modeAt (t0 + 325) [(t0, TouchDown), (t0 + 50, TouchUp)] s = Pinpoint"
proof -
  define s1 where "s1 = deliver s (t0, TouchDown)"
  define s2 where "s2 = deliver s1 (t0 + 50, TouchUp)"
  have "t0 + 325 \<in> set (holdTimers s1)"
    by (simp add: s1_def deliver_def Let_def iface_onPanResponderGrant_def)
  then have "t0 + 325 \<in> set (holdTimers (advanceTo (t0 + 50) s1))"
    by (simp add: holdTimers_advanceTo fst_fireTimers)
  then have "t0 + 325 \<in> set (holdTimers s2)"
    by (simp add: s2_def deliver_def Let_def)
  then have "\<exists>t \<in> set (holdTimers s2). t \<le> t0 + 325"
    by (rule rev_bexI) simp
  then have "mode (cursor (gameStore (advanceTo (t0 + 325) s2))) = Pinpoint"
    by (simp add: gameStore_advanceTo fireTimers_mode)
  then show ?thesis
    by (simp add: modeAt_def s2_def s1_def)
qed

section \<open>Properties of the jitter\<close>

lemma gridCell_seed_fields:
  "digit (gridCell env row col) = \<bar>xor32 (col * 73856093) (row * 19349663)\<bar> mod 10"
  "jitterType (gridCell env row col) = \<bar>xor32 (col * 12345) (row * 67890)\<bar> mod 100"
  "jitterPhase (gridCell env row col)
     = fmod (of_int \<bar>xor32 (col * 12345) (row * 67890)\<bar> * 0.01) (pi * 2)"
  by (simp_all add: gridCell_def Let_def)

lemma gridCell_2_3:
  "digit (gridCell env 2 3) = 5" "jitterType (gridCell env 2 3) = 59"
  by (simp_all add: gridCell_seed_fields xor32_def)

text \<open>
  Claim C9 (deterministic jitter). The digit of a cell and its jitter offset are
  functions of the cell's row and column, the global time and the jitter options only:
  two evaluations that agree on these give the same digit and the same offset, whatever
  else differs between them (the window's size, the cell size, the cursor options, and
  the whole of the component's state and of the store).
\<close>

theorem jitter_deterministic:
  assumes "globalTime s1 = globalTime s2"
    and "jitter (config env1) = jitter (config env2)"
  shows "digit (gridCell env1 row col) = digit (gridCell env2 row col) \<and>
         cellJitterOffset env1 s1 row col = cellJitterOffset env2 s2 row col"
  using assms
  by (simp add: cellJitterOffset_def getJitterOffset_def gridCell_seed_fields)

text \<open>
  The cell at row 2, column 3 (digit 5, jitter type 59), on the phone at rest and on
  the tablet in lasso mode over a panned viewport.
\<close>

theorem jitter_deterministic_witness:
  "globalTime (initialGridState phoneStore) = globalTime lassoAtCorner \<and>
   jitter (config phoneEnv) = jitter (config tabletEnv) \<and>
   digit (gridCell phoneEnv 2 3) = 5 \<and> digit (gridCell tabletEnv 2 3) = 5 \<and>
   cellJitterOffset phoneEnv (initialGridState phoneStore) 2 3
     = cellJitterOffset tabletEnv lassoAtCorner 2 3"
  using jitter_deterministic [of "initialGridState phoneStore" lassoAtCorner phoneEnv tabletEnv 2 3]
  by (simp add: initialGridState_def lassoAtCorner_def phoneEnv_def tabletEnv_def gridCell_2_3)

end
